theory Spec2Isabelle
  imports Complex_Main
begin

section \<open>Python primitives used by backend/main.py\<close>

text \<open>
  \<open>int(x)\<close> on a float truncates toward zero. Clock readings (\<open>time.time()\<close>, seconds as
  a float) are idealised as reals; they are inputs of the operations that read the clock.
\<close>

definition py_int :: "real \<Rightarrow> int" where
  "py_int x = (if 0 \<le> x then \<lfloor>x\<rfloor> else \<lceil>x\<rceil>)"

text \<open>
  \<open>int((time.time() - start) * 1000)\<close>, with \<open>start\<close> an earlier \<open>time.time()\<close>. The
  difference and the product are taken over the reals. The code takes them in double
  precision, which agrees for whole-second readings (the only ones a duration is stated
  for below) and can differ by one millisecond for readings with a fraction.
\<close>

definition elapsed_ms :: "real \<Rightarrow> real \<Rightarrow> int" where
  "elapsed_ms start finish = py_int ((finish - start) * 1000)"

text \<open>\<open>str(n)\<close> for a Python int: decimal digits, a leading minus sign when negative.\<close>

definition digit_char :: "nat \<Rightarrow> char" where
  "digit_char d = ''0123456789'' ! d"

fun str_nat :: "nat \<Rightarrow> string" where
  "str_nat n = (if n < 10 then [digit_char n] else str_nat (n div 10) @ [digit_char (n mod 10)])"

declare str_nat.simps [simp del]

definition str_int :: "int \<Rightarrow> string" where
  "str_int i = (if i < 0 then CHR ''-'' # str_nat (nat (- i)) else str_nat (nat i))"

text \<open>\<open>os.path.join(a, b)\<close> for two components on a POSIX system.\<close>

definition path_join :: "string \<Rightarrow> string \<Rightarrow> string" where
  "path_join a b =
     (if b \<noteq> [] \<and> hd b = CHR ''/'' then b
      else if a = [] \<or> last a = CHR ''/'' then a @ b
      else a @ ''/'' @ b)"

text \<open>
  The exceptions the handlers can raise: \<open>HTTPException(status_code, detail)\<close>, the
  \<open>IndexError\<close> of \<open>state["workflows"][0]\<close> on an empty list, and an \<open>OSError\<close> of the
  archive writers, which is not caught in \<open>run_backup\<close>.
\<close>

datatype error = HTTPException nat string | IndexError | OSError

section \<open>Operational state\<close>

text \<open>The dictionaries of the global \<open>state\<close>, one record per dictionary shape.\<close>

record workflow =
  wf_name :: string
  wf_status :: string
  wf_last_run :: string
  wf_next_run :: string

record incident =
  inc_ts :: string
  inc_type :: string
  inc_action :: string
  inc_result :: string
  inc_severity :: string
  inc_duration_ms :: int

record last_backup =
  lb_ts :: "string option"
  lb_file :: "string option"
  lb_size :: nat

record state =
  system_status :: string
  last_incident :: "string option"
  workflows :: "workflow list"
  incidents :: "incident list"
  last_backup :: last_backup

definition initial_state :: state where
  "initial_state =
     \<lparr> system_status = ''OK'',
       last_incident = None,
       workflows =
         [ \<lparr> wf_name = ''Incident Agent'', wf_status = ''Running'',
             wf_last_run = ''2m ago'', wf_next_run = ''in 3m'' \<rparr>,
           \<lparr> wf_name = ''Evidence Agent'', wf_status = ''Running'',
             wf_last_run = ''5m ago'', wf_next_run = ''in 10m'' \<rparr>,
           \<lparr> wf_name = ''Backup Agent'', wf_status = ''Idle'',
             wf_last_run = ''1h ago'', wf_next_run = ''in 5h'' \<rparr>,
           \<lparr> wf_name = ''Forecast Refresh'', wf_status = ''Running'',
             wf_last_run = ''10m ago'', wf_next_run = ''in 50m'' \<rparr> ],
       incidents = [],
       last_backup = \<lparr> lb_ts = None, lb_file = None, lb_size = 0 \<rparr> \<rparr>"

text \<open>
  \<open>state["workflows"][0]["status"] = v\<close>: the first workflow is updated in place; on an
  empty list the subscript raises \<open>IndexError\<close> (\<open>None\<close> here).
\<close>

definition set_workflow0_status :: "string \<Rightarrow> workflow list \<Rightarrow> workflow list option" where
  "set_workflow0_status v ws =
     (case ws of [] \<Rightarrow> None | w # rest \<Rightarrow> Some (w\<lparr>wf_status := v\<rparr> # rest))"

text \<open>
  Every handler returns its response (or the exception it raised) together with the
  state it leaves behind: assignments made before a raise stay in place.
\<close>

subsection \<open>\<open>POST /api/simulate/fail\<close>\<close>

definition simulate_fail :: "state \<Rightarrow> (error + string) \<times> state" where
  "simulate_fail s =
     (let s1 = s\<lparr>system_status := ''DEGRADED''\<rparr>;
          s2 = s1\<lparr>last_incident := Some ''API Latency Spike detected''\<rparr>
      in case set_workflow0_status ''Retrying...'' (workflows s2) of
           None \<Rightarrow> (Inl IndexError, s2)
         | Some ws \<Rightarrow> (Inr ''System set to DEGRADED'', s2\<lparr>workflows := ws\<rparr>))"

subsection \<open>\<open>POST /api/selfheal/run\<close>, first handler\<close>

text \<open>
  \<open>start\<close> and \<open>finish\<close> are the two \<open>time.time()\<close> readings (before and after the two
  one-second sleeps), \<open>hms\<close> is \<open>time.strftime("%H:%M:%S")\<close>. The response is the status
  text with the logged incident.
\<close>

definition self_heal :: "real \<Rightarrow> real \<Rightarrow> string \<Rightarrow> state \<Rightarrow> (error + string \<times> incident) \<times> state" where
  "self_heal start finish hms s =
     (let s1 = s\<lparr>system_status := ''HEALING''\<rparr>;
          s2 = s1\<lparr>system_status := ''OK''\<rparr>;
          duration = elapsed_ms start finish;
          incident = \<lparr> inc_ts = hms, inc_type = ''Latency Spike'',
                       inc_action = ''Auto-Scale + Cache Flush'', inc_result = ''Resolved'',
                       inc_severity = ''HIGH'', inc_duration_ms = duration \<rparr>;
          s3 = s2\<lparr>incidents := incident # incidents s2\<rparr>;
          s4 = (if length (incidents s3) > 5 then s3\<lparr>incidents := butlast (incidents s3)\<rparr> else s3);
          s5 = s4\<lparr>last_incident := Some (''Resolved: '' @ inc_type incident)\<rparr>
      in case set_workflow0_status ''Running'' (workflows s5) of
           None \<Rightarrow> (Inl IndexError, s5)
         | Some ws \<Rightarrow> (Inr (''System Healed'', incident), s5\<lparr>workflows := ws\<rparr>))"

subsection \<open>\<open>POST /api/selfheal/fail\<close>\<close>

definition real_fail :: "string \<Rightarrow> state \<Rightarrow> (error + string \<times> incident) \<times> state" where
  "real_fail hms s =
     (let s1 = s\<lparr>system_status := ''DEGRADED''\<rparr>;
          incident = \<lparr> inc_ts = hms, inc_type = ''api_failure_demo'',
                       inc_action = ''restart_api'', inc_result = ''Pending'',
                       inc_severity = ''HIGH'', inc_duration_ms = 0 \<rparr>;
          s2 = s1\<lparr>incidents := incident # incidents s1\<rparr>;
          s3 = (if length (incidents s2) > 5 then s2\<lparr>incidents := butlast (incidents s2)\<rparr> else s2);
          s4 = s3\<lparr>last_incident := Some ''Critical Failure: API Unresponsive''\<rparr>
      in (Inr (''System DEGRADED'', incident), s4))"

subsection \<open>\<open>POST /api/selfheal/run\<close>, second handler\<close>

text \<open>
  The loop over \<open>state["incidents"]\<close>: the first record with type \<open>api_failure_demo\<close> and
  result \<open>Pending\<close> is updated in place and the loop breaks. The result is the updated
  record (\<open>None\<close> when the loop ends without a match) and the list after the loop.
\<close>

definition pending_demo :: "incident \<Rightarrow> bool" where
  "pending_demo inc = (inc_type inc = ''api_failure_demo'' \<and> inc_result inc = ''Pending'')"

fun recover_pending :: "incident list \<Rightarrow> incident option \<times> incident list" where
  "recover_pending [] = (None, [])"
| "recover_pending (inc # rest) =
     (if pending_demo inc
      then (let inc' = inc\<lparr>inc_result := ''Recovered'', inc_duration_ms := 12800\<rparr>
            in (Some inc', inc' # rest))
      else (case recover_pending rest of (found, rest') \<Rightarrow> (found, inc # rest')))"

text \<open>
  \<open>real_heal\<close> is registered for the same route as \<open>self_heal\<close>, after it. It sleeps
  (2 s, then 1 s) but never reads the clock; \<open>hms\<close> is \<open>time.strftime("%H:%M:%S")\<close>,
  used only when no pending incident is found.
\<close>

definition real_heal :: "string \<Rightarrow> state \<Rightarrow> (error + string \<times> incident) \<times> state" where
  "real_heal hms s =
     (let s1 = s\<lparr>system_status := ''HEALING''\<rparr>;
          s2 = s1\<lparr>system_status := ''OK''\<rparr>;
          (found, incs) = recover_pending (incidents s2);
          s3 = s2\<lparr>incidents := incs\<rparr>;
          (incident, s4) =
            (case found of
               Some inc \<Rightarrow> (inc, s3)
             | None \<Rightarrow>
                 (let inc = \<lparr> inc_ts = hms, inc_type = ''api_restart_manual'',
                               inc_action = ''restart_api'', inc_result = ''Recovered'',
                               inc_severity = ''HIGH'', inc_duration_ms = 12800 \<rparr>
                  in (inc, s3\<lparr>incidents := inc # incidents s3\<rparr>)));
          s5 = s4\<lparr>last_incident := Some ''System Recovered''\<rparr>
      in case set_workflow0_status ''Running'' (workflows s5) of
           None \<Rightarrow> (Inl IndexError, s5)
         | Some ws \<Rightarrow> (Inr (''System Restored'', incident), s5\<lparr>workflows := ws\<rparr>))"

section \<open>Catalog and scope resolution\<close>

text \<open>
  JSON values that the resolver passes through unread (\<open>kpis\<close>, \<open>levers\<close>) and the
  dictionaries it returns. An object keeps its keys in insertion order.
\<close>

datatype json =
    JNull
  | JBool bool
  | JInt int
  | JFloat real
  | JStr string
  | JList "json list"
  | JObj "(string \<times> json) list"

text \<open>
  A catalog as \<open>get_scope_kpis\<close> reads it: the keys it subscripts (\<open>campus\<close>, \<open>faculties\<close>,
  \<open>id\<close>, \<open>name\<close>, \<open>kpis\<close>) are fields, the keys it reads with \<open>.get(key, [])\<close> (\<open>levers\<close>,
  \<open>departments\<close>) are optional fields.
\<close>

record department =
  dept_id :: string
  dept_name :: string
  dept_kpis :: json
  dept_levers :: "json option"

record faculty =
  fac_id :: string
  fac_name :: string
  fac_kpis :: json
  fac_levers :: "json option"
  fac_departments :: "department list option"

record campus =
  campus_kpis :: json
  campus_levers :: "json option"

record catalog =
  cat_campus :: campus
  cat_faculties :: "faculty list"

text \<open>\<open>d.get(key, [])\<close> for the two optional keys.\<close>

definition get_levers :: "json option \<Rightarrow> json" where
  "get_levers l = (case l of None \<Rightarrow> JList [] | Some v \<Rightarrow> v)"

definition get_departments :: "faculty \<Rightarrow> department list" where
  "get_departments f = (case fac_departments f of None \<Rightarrow> [] | Some ds \<Rightarrow> ds)"

text \<open>
  The loop of the \<open>department\<close> branch: for each faculty in order, \<open>next(...)\<close> takes the
  first of its departments whose id equals the query id; the loop breaks at the first
  faculty that has one. The query id is \<open>Optional[str]\<close>, and \<open>None\<close> equals no id.
\<close>

fun search_faculties :: "string option \<Rightarrow> faculty list \<Rightarrow> department option" where
  "search_faculties qid [] = None"
| "search_faculties qid (f # fs) =
     (case find (\<lambda>d. Some (dept_id d) = qid) (get_departments f) of
        Some d \<Rightarrow> Some d
      | None \<Rightarrow> search_faculties qid fs)"

section \<open>Files\<close>

text \<open>
  The file system maps a path to what is stored there. Archives are modelled by the data
  they are built from and the size the operating system reports for them; rendering and
  compression are outside the model. A backup archive lists the paths added to it; an
  evidence pack holds its creation timestamp, the state snapshot that \<open>evidence.json\<close> and
  \<open>summary.md\<close> are rendered from, and the backup archive copied into it, if any, under
  its archive name.
\<close>

datatype fs_file =
    TarGz "string list" nat
  | ZipPack string state "(string \<times> fs_file) option" nat
  | Other nat

text \<open>\<open>os.path.getsize\<close>.\<close>

fun file_size :: "fs_file \<Rightarrow> nat" where
  "file_size (TarGz members n) = n"
| "file_size (ZipPack ts snapshot backup n) = n"
| "file_size (Other n) = n"

definition BACKUP_DIR :: string where
  "BACKUP_DIR = ''runtime/backups''"

definition EVIDENCE_DIR :: string where
  "EVIDENCE_DIR = ''runtime/evidence''"

section \<open>The process: its globals and the files it sees\<close>

record world =
  state :: state
  catalog_cache :: "catalog option"
  fs :: "string \<rightharpoonup> fs_file"

definition on_state :: "(state \<Rightarrow> 'r \<times> state) \<Rightarrow> world \<Rightarrow> 'r \<times> world" where
  "on_state f w = (case f (state w) of (r, s') \<Rightarrow> (r, w\<lparr>state := s'\<rparr>))"

subsection \<open>\<open>load_catalog\<close> and \<open>GET /api/kpi/scope\<close>\<close>

text \<open>
  \<open>disk\<close> is what reading and parsing the catalog file gives at the time of the call:
  \<open>None\<close> when the file is missing, unreadable or malformed (the exception is swallowed),
  or when its content is falsy, which every caller treats like no catalog.
\<close>

definition load_catalog :: "catalog option \<Rightarrow> world \<Rightarrow> catalog option \<times> world" where
  "load_catalog disk w =
     (case catalog_cache w of
        Some c \<Rightarrow> (Some c, w)
      | None \<Rightarrow>
          (case disk of
             Some c \<Rightarrow> (Some c, w\<lparr>catalog_cache := Some c\<rparr>)
           | None \<Rightarrow> (None, w)))"

definition fallback_scope :: "(string \<times> json) list" where
  "fallback_scope =
     [ (''scope'', JStr ''campus''),
       (''kpis'', JObj [ (''co2e_t'', JInt 18450), (''energy_mwh'', JInt 14200),
                         (''water_m3'', JInt 45000), (''intensity'', JFloat 1.2),
                         (''progress'', JInt 42) ]),
       (''levers'', JList []) ]"

definition get_scope_kpis ::
  "catalog option \<Rightarrow> string \<Rightarrow> string option \<Rightarrow> world \<Rightarrow> (error + (string \<times> json) list) \<times> world" where
  "get_scope_kpis disk scope qid w =
     (case load_catalog disk w of
        (None, w') \<Rightarrow> (Inr fallback_scope, w')
      | (Some data, w') \<Rightarrow>
          if scope = ''campus'' then
            (Inr [ (''scope'', JStr ''campus''), (''name'', JStr ''Campus Overview''),
                   (''kpis'', campus_kpis (cat_campus data)),
                   (''levers'', get_levers (campus_levers (cat_campus data))) ], w')
          else if scope = ''faculty'' then
            (case find (\<lambda>f. Some (fac_id f) = qid) (cat_faculties data) of
               None \<Rightarrow> (Inl (HTTPException 404 ''Faculty not found''), w')
             | Some faculty \<Rightarrow>
                 (Inr [ (''scope'', JStr ''faculty''), (''name'', JStr (fac_name faculty)),
                        (''kpis'', fac_kpis faculty),
                        (''levers'', get_levers (fac_levers faculty)) ], w'))
          else if scope = ''department'' then
            (case search_faculties qid (cat_faculties data) of
               None \<Rightarrow> (Inl (HTTPException 404 ''Department not found''), w')
             | Some dept \<Rightarrow>
                 (Inr [ (''scope'', JStr ''department''), (''name'', JStr (dept_name dept)),
                        (''kpis'', dept_kpis dept),
                        (''levers'', get_levers (dept_levers dept)) ], w'))
          else (Inr [], w'))"

subsection \<open>Backups\<close>

text \<open>
  What writing the archive does, as far as the handler can tell: \<open>tarfile.open\<close> raises
  (nothing is written), adding a member raises (the \<open>with\<close> block closes a partial
  archive), or the archive is written and the operating system reports its size.
\<close>

datatype backup_outcome =
    BackupOpenFailed
  | BackupAddFailed fs_file
  | BackupWritten nat

definition backup_filename :: "real \<Rightarrow> string" where
  "backup_filename t = ''backup_'' @ str_int (py_int t) @ ''.tar.gz''"

record backup_response =
  br_ok :: bool
  br_file :: string
  br_size_bytes :: nat
  br_ts :: string

text \<open>
  \<open>now_iso\<close> is \<open>datetime.datetime.now().isoformat()\<close> and \<open>t\<close> is \<open>time.time()\<close>. An exception
  of the archive writer is not caught: the handler ends before \<open>state["last_backup"]\<close> is
  assigned.
\<close>

definition run_backup :: "string \<Rightarrow> real \<Rightarrow> backup_outcome \<Rightarrow> world \<Rightarrow> (error + backup_response) \<times> world" where
  "run_backup now_iso t outcome w =
     (let ts = now_iso;
          filename = backup_filename t;
          filepath = path_join BACKUP_DIR filename
      in case outcome of
           BackupOpenFailed \<Rightarrow> (Inl OSError, w)
         | BackupAddFailed partial \<Rightarrow> (Inl OSError, w\<lparr>fs := (fs w)(filepath \<mapsto> partial)\<rparr>)
         | BackupWritten n \<Rightarrow>
             (let members = filter (\<lambda>p. fs w p \<noteq> None) [''zero-campus.html'', ''backend''];
                  w1 = w\<lparr>fs := (fs w)(filepath \<mapsto> TarGz members n)\<rparr>;
                  size = (case fs w1 filepath of Some f \<Rightarrow> file_size f | None \<Rightarrow> 0);
                  w2 = w1\<lparr>state := (state w1)\<lparr>last_backup :=
                          \<lparr> lb_ts = Some ts, lb_file = Some filename, lb_size = size \<rparr>\<rparr>\<rparr>
              in (Inr \<lparr> br_ok = True, br_file = filename, br_size_bytes = size, br_ts = ts \<rparr>, w2)))"

text \<open>
  The truth value of \<open>lb["file"]\<close>: \<open>None\<close> and the empty string are falsy; a truthy value
  is the file name.
\<close>

definition truthy_name :: "string option \<Rightarrow> string option" where
  "truthy_name f = (case f of None \<Rightarrow> None | Some n \<Rightarrow> if n = [] then None else Some n)"

text \<open>\<open>os.path.exists(p) and os.path.getsize(p) > 0\<close>.\<close>

definition exists_nonempty :: "(string \<rightharpoonup> fs_file) \<Rightarrow> string \<Rightarrow> bool" where
  "exists_nonempty files p = (case files p of None \<Rightarrow> False | Some f \<Rightarrow> file_size f > 0)"

definition verify_backup :: "world \<Rightarrow> (error + bool) \<times> world" where
  "verify_backup w =
     (let lb = last_backup (state w)
      in case truthy_name (lb_file lb) of
           None \<Rightarrow> (Inl (HTTPException 404 ''No backup found''), w)
         | Some name \<Rightarrow>
             (let filepath = path_join BACKUP_DIR name
              in if exists_nonempty (fs w) filepath then (Inr True, w)
                 else (Inl (HTTPException 500 ''Backup file missing or empty''), w)))"

subsection \<open>Evidence packs\<close>

text \<open>
  Writing the zip either raises (caught and turned into status 500 with the exception
  text; a partial file may be left behind) or succeeds with the size the operating system
  reports.
\<close>

datatype zip_outcome =
    ZipFailed string "fs_file option"
  | ZipWritten nat

record evidence_response =
  er_ok :: bool
  er_pack_id :: string
  er_zip_path :: string
  er_size_bytes :: nat
  er_created_at :: string

definition pack_id_of :: "real \<Rightarrow> string" where
  "pack_id_of t = ''evidence_'' @ str_int (py_int t)"

definition zip_path_of :: "string \<Rightarrow> string" where
  "zip_path_of pack_id = path_join EVIDENCE_DIR (pack_id @ ''.zip'')"

text \<open>
  \<open>now_iso\<close> is \<open>datetime.datetime.now().isoformat()\<close> and \<open>t\<close> is \<open>time.time()\<close>. The zip is
  opened in mode \<open>'w'\<close>: a file already at \<open>zip_path\<close> is replaced.
\<close>

definition build_evidence_pack :: "string \<Rightarrow> real \<Rightarrow> zip_outcome \<Rightarrow> world \<Rightarrow> (error + evidence_response) \<times> world" where
  "build_evidence_pack now_iso t outcome w =
     (let ts = now_iso;
          pack_id = pack_id_of t;
          zip_path = zip_path_of pack_id;
          lb = last_backup (state w);
          backup_member =
            (case truthy_name (lb_file lb) of
               None \<Rightarrow> None
             | Some name \<Rightarrow>
                 (case fs w (path_join BACKUP_DIR name) of
                    None \<Rightarrow> None
                  | Some b \<Rightarrow> Some (''backups/'' @ name, b)))
      in case outcome of
           ZipFailed detail partial \<Rightarrow>
             (Inl (HTTPException 500 detail),
              (case partial of None \<Rightarrow> w | Some p \<Rightarrow> w\<lparr>fs := (fs w)(zip_path \<mapsto> p)\<rparr>))
         | ZipWritten n \<Rightarrow>
             (let w1 = w\<lparr>fs := (fs w)(zip_path \<mapsto> ZipPack ts (state w) backup_member n)\<rparr>;
                  size = (case fs w1 zip_path of Some f \<Rightarrow> file_size f | None \<Rightarrow> 0)
              in (Inr \<lparr> er_ok = True, er_pack_id = pack_id, er_zip_path = zip_path,
                        er_size_bytes = size, er_created_at = ts \<rparr>, w1)))"

text \<open>\<open>GET /api/evidence/download\<close>: the file stored under the pack id, or status 404.\<close>

definition download_evidence :: "string \<Rightarrow> world \<Rightarrow> (error + fs_file) \<times> world" where
  "download_evidence pack_id w =
     (case fs w (zip_path_of pack_id) of
        Some f \<Rightarrow> (Inr f, w)
      | None \<Rightarrow> (Inl (HTTPException 404 ''Evidence pack not found''), w))"

section \<open>A process run\<close>

text \<open>
  What can happen to the process after it starts: one of the handlers above is called
  with the inputs the environment gives it, or something outside the process changes a
  file (\<open>FsChange p None\<close> deletes \<open>p\<close>). Handlers that only read the state are left out.
\<close>

datatype request =
    SimulateFail
  | SelfHeal real real string
  | RealFail string
  | RealHeal string
  | RunBackup string real backup_outcome
  | VerifyBackup
  | BuildEvidencePack string real zip_outcome
  | DownloadEvidence string
  | GetScopeKpis "catalog option" string "string option"
  | FsChange string "fs_file option"

fun step :: "request \<Rightarrow> world \<Rightarrow> world" where
  "step SimulateFail w = snd (on_state simulate_fail w)"
| "step (SelfHeal start finish hms) w = snd (on_state (self_heal start finish hms) w)"
| "step (RealFail hms) w = snd (on_state (real_fail hms) w)"
| "step (RealHeal hms) w = snd (on_state (real_heal hms) w)"
| "step (RunBackup now_iso t outcome) w = snd (run_backup now_iso t outcome w)"
| "step VerifyBackup w = snd (verify_backup w)"
| "step (BuildEvidencePack now_iso t outcome) w = snd (build_evidence_pack now_iso t outcome w)"
| "step (DownloadEvidence pack_id) w = snd (download_evidence pack_id w)"
| "step (GetScopeKpis disk scope qid) w = snd (get_scope_kpis disk scope qid w)"
| "step (FsChange p f) w = w\<lparr>fs := (fs w)(p := f)\<rparr>"

fun run :: "request list \<Rightarrow> world \<Rightarrow> world" where
  "run [] w = w"
| "run (r # rs) w = run rs (step r w)"

text \<open>
  The requests the router serves. \<open>self_heal\<close> and \<open>real_heal\<close> are both registered with
  \<open>@app.post("/api/selfheal/run")\<close>; the route table is searched in registration order,
  so every heal request runs \<open>self_heal\<close>, and nothing in the program calls \<open>real_heal\<close>.
  \<open>RealHeal\<close> stands for a call of that handler by hand; a run of the program has none.
\<close>

fun served :: "request \<Rightarrow> bool" where
  "served (RealHeal hms) = False"
| "served r = True"

text \<open>
  The two kinds of record that the served handlers write: the resolved latency spike of
  \<open>self_heal\<close> and the pending failure of \<open>real_fail\<close>, which has duration 0.
\<close>

definition live_record :: "incident \<Rightarrow> bool" where
  "live_record inc =
     ((inc_type inc = ''Latency Spike'' \<and> inc_result inc = ''Resolved'')
      \<or> (inc_type inc = ''api_failure_demo'' \<and> inc_result inc = ''Pending''
          \<and> inc_duration_ms inc = 0))"

text \<open>The process starts with the initial state and no cached catalog.\<close>

definition initial_world :: "(string \<rightharpoonup> fs_file) \<Rightarrow> world" where
  "initial_world files = \<lparr> state = initial_state, catalog_cache = None, fs = files \<rparr>"

text \<open>A backup has been created when some \<open>run_backup\<close> call of the run completed.\<close>

fun completes_backup :: "request \<Rightarrow> bool" where
  "completes_backup (RunBackup now_iso t (BackupWritten n)) = True"
| "completes_backup r = False"

definition backup_created :: "request list \<Rightarrow> bool" where
  "backup_created rs = list_ex completes_backup rs"

section \<open>The specification's wording of the department lookup\<close>

text \<open>
  The first department with the given id when the faculties are scanned in catalog order
  and, within each faculty, its departments in order: the first match in the
  concatenation of all department lists.
\<close>

definition first_department_in_catalog_order :: "string \<Rightarrow> catalog \<Rightarrow> department option" where
  "first_department_in_catalog_order x c =
     find (\<lambda>d. dept_id d = x) (concat (map get_departments (cat_faculties c)))"

section \<open>An example catalog\<close>

text \<open>
  Three faculties; the second and the third both own a department with id \<open>design\<close>.
\<close>

definition demo_catalog :: catalog where
  "demo_catalog =
     \<lparr> cat_campus = \<lparr> campus_kpis = JObj [(''co2e_t'', JInt 100)], campus_levers = None \<rparr>,
       cat_faculties =
         [ \<lparr> fac_id = ''eng'', fac_name = ''Engineering'', fac_kpis = JObj [], fac_levers = None,
             fac_departments = Some [ \<lparr> dept_id = ''cs'', dept_name = ''Computer Science'',
                                        dept_kpis = JObj [], dept_levers = None \<rparr> ] \<rparr>,
           \<lparr> fac_id = ''arts'', fac_name = ''Fine Arts'', fac_kpis = JObj [], fac_levers = None,
             fac_departments = Some [ \<lparr> dept_id = ''design'', dept_name = ''Design (Arts)'',
                                        dept_kpis = JObj [(''progress'', JInt 7)],
                                        dept_levers = None \<rparr> ] \<rparr>,
           \<lparr> fac_id = ''sci'', fac_name = ''Science'', fac_kpis = JObj [], fac_levers = None,
             fac_departments = Some [ \<lparr> dept_id = ''design'', dept_name = ''Design (Science)'',
                                        dept_kpis = JObj [(''progress'', JInt 9)],
                                        dept_levers = Some (JList [JStr ''led'']) \<rparr> ] \<rparr> ] \<rparr>"

section \<open>Auxiliary facts\<close>

subsection \<open>Decimal printing is injective\<close>

lemma digit_char_inj: "a < 10 \<Longrightarrow> b < 10 \<Longrightarrow> digit_char a = digit_char b \<Longrightarrow> a = b"
proof -
  assume a: "a < 10" and b: "b < 10" and e: "digit_char a = digit_char b"
  have A: "a \<in> {0,1,2,3,4,5,6,7,8,9}" using a by auto
  have B: "b \<in> {0,1,2,3,4,5,6,7,8,9}" using b by auto
  show ?thesis using A B e unfolding digit_char_def by auto
qed

lemma digit_char_not_minus: "d < 10 \<Longrightarrow> digit_char d \<noteq> CHR ''-''"
proof -
  assume a: "d < 10"
  have A: "d \<in> {0,1,2,3,4,5,6,7,8,9}" using a by auto
  show ?thesis using A unfolding digit_char_def by auto
qed

lemma str_nat_nonempty: "str_nat n \<noteq> []"
  by (subst str_nat.simps) simp

lemma last_str_nat: "last (str_nat n) = digit_char (n mod 10)"
  by (subst str_nat.simps) simp

lemma butlast_str_nat: "butlast (str_nat n) = (if n < 10 then [] else str_nat (n div 10))"
  by (subst str_nat.simps) simp

lemma str_nat_inj: "str_nat a = str_nat b \<Longrightarrow> a = b"
proof (induction a arbitrary: b rule: str_nat.induct)
  case (1 n)
  have l: "digit_char (n mod 10) = digit_char (b mod 10)"
    using "1.prems" last_str_nat by metis
  then have m: "n mod 10 = b mod 10" using digit_char_inj[of "n mod 10" "b mod 10"] by simp
  have bl: "butlast (str_nat n) = butlast (str_nat b)" using "1.prems" by simp
  show ?case
  proof (cases "n < 10")
    case True
    then have "b < 10" using bl str_nat_nonempty[of "b div 10"] by (auto simp: butlast_str_nat split: if_splits)
    then show ?thesis using True m by simp
  next
    case False
    then have nb: "\<not> b < 10" using bl str_nat_nonempty[of "n div 10"] by (auto simp: butlast_str_nat split: if_splits)
    then have "str_nat (n div 10) = str_nat (b div 10)" using bl False by (simp add: butlast_str_nat)
    then have "n div 10 = b div 10" using "1.IH"[OF False] by simp
    then show ?thesis using m by (metis div_mult_mod_eq)
  qed
qed

lemma hd_str_nat_not_minus: "hd (str_nat n) \<noteq> CHR ''-''"
proof (induction n rule: str_nat.induct)
  case (1 n)
  show ?case
  proof (cases "n < 10")
    case True
    then show ?thesis using digit_char_not_minus[of n] by (subst str_nat.simps) simp
  next
    case False
    then show ?thesis using "1.IH" str_nat_nonempty[of "n div 10"] by (subst str_nat.simps) simp
  qed
qed

lemma str_nat_not_minus_cons: "str_nat n \<noteq> CHR ''-'' # xs"
  using hd_str_nat_not_minus[of n] by (metis list.sel(1))

lemma str_int_inj: "str_int a = str_int b \<Longrightarrow> a = b"
proof -
  assume e: "str_int a = str_int b"
  show ?thesis
  proof (cases "a < 0")
    case True
    show ?thesis
    proof (cases "b < 0")
      case b: True
      from e True b have "str_nat (nat (- a)) = str_nat (nat (- b))" by (simp add: str_int_def)
      then have "nat (- a) = nat (- b)" by (rule str_nat_inj)
      then show ?thesis using True b by simp
    next
      case b: False
      from e True b have "str_nat (nat b) = CHR ''-'' # str_nat (nat (- a))" by (simp add: str_int_def)
      then show ?thesis using str_nat_not_minus_cons by blast
    qed
  next
    case False
    show ?thesis
    proof (cases "b < 0")
      case b: True
      from e False b have "str_nat (nat a) = CHR ''-'' # str_nat (nat (- b))" by (simp add: str_int_def)
      then show ?thesis using str_nat_not_minus_cons by blast
    next
      case b: False
      from e False b have "str_nat (nat a) = str_nat (nat b)" by (simp add: str_int_def)
      then have "nat a = nat b" by (rule str_nat_inj)
      then show ?thesis using False b by simp
    qed
  qed
qed

subsection \<open>Lists and workflows\<close>

lemma find_append_first:
  "find P (xs @ ys) = (case find P xs of Some x \<Rightarrow> Some x | None \<Rightarrow> find P ys)"
  by (induction xs) simp_all

lemma search_faculties_concat:
  "search_faculties (Some x) facs = find (\<lambda>d. dept_id d = x) (concat (map get_departments facs))"
  by (induction facs) (simp_all add: find_append_first split: option.split)

lemma find_None_set: "(find P xs = None) = (\<not> (\<exists>x\<in>set xs. P x))"
  by (induction xs) simp_all

lemma set_workflow0_status_nonempty:
  "ws \<noteq> [] \<Longrightarrow> set_workflow0_status v ws = Some ((hd ws)\<lparr>wf_status := v\<rparr> # tl ws)"
  by (cases ws) (simp_all add: set_workflow0_status_def)

lemma recover_pending_none:
  "\<forall>inc\<in>set xs. \<not> pending_demo inc \<Longrightarrow> recover_pending xs = (None, xs)"
  by (induction xs) simp_all

lemma recover_pending_some:
  "\<exists>inc\<in>set xs. pending_demo inc \<Longrightarrow>
   \<exists>pre p post. xs = pre @ p # post \<and> (\<forall>x\<in>set pre. \<not> pending_demo x) \<and> pending_demo p
     \<and> recover_pending xs =
         (Some (p\<lparr>inc_result := ''Recovered'', inc_duration_ms := 12800\<rparr>),
          pre @ p\<lparr>inc_result := ''Recovered'', inc_duration_ms := 12800\<rparr> # post)"
proof (induction xs)
  case Nil
  then show ?case by simp
next
  case (Cons a xs)
  show ?case
  proof (cases "pending_demo a")
    case True
    have "a # xs = [] @ a # xs \<and> (\<forall>x\<in>set []. \<not> pending_demo x) \<and> pending_demo a
      \<and> recover_pending (a # xs) =
         (Some (a\<lparr>inc_result := ''Recovered'', inc_duration_ms := 12800\<rparr>),
          [] @ a\<lparr>inc_result := ''Recovered'', inc_duration_ms := 12800\<rparr> # xs)"
      using True by (simp add: Let_def)
    then show ?thesis by blast
  next
    case False
    with Cons.prems have "\<exists>inc\<in>set xs. pending_demo inc" by auto
    from Cons.IH[OF this] obtain pre p post where
      h: "xs = pre @ p # post" "\<forall>x\<in>set pre. \<not> pending_demo x" "pending_demo p"
         "recover_pending xs =
           (Some (p\<lparr>inc_result := ''Recovered'', inc_duration_ms := 12800\<rparr>),
            pre @ p\<lparr>inc_result := ''Recovered'', inc_duration_ms := 12800\<rparr> # post)"
      by blast
    have "a # xs = (a # pre) @ p # post \<and> (\<forall>x\<in>set (a # pre). \<not> pending_demo x) \<and> pending_demo p
      \<and> recover_pending (a # xs) =
         (Some (p\<lparr>inc_result := ''Recovered'', inc_duration_ms := 12800\<rparr>),
          (a # pre) @ p\<lparr>inc_result := ''Recovered'', inc_duration_ms := 12800\<rparr> # post)"
      using h False by simp
    then show ?thesis by blast
  qed
qed

subsection \<open>The incident log keeps its length in the other handlers\<close>




subsection \<open>Evidence pack names\<close>

lemma pack_id_of_eq: "(pack_id_of t1 = pack_id_of t2) = (py_int t1 = py_int t2)"
  using str_int_inj [of "py_int t1" "py_int t2"] by (auto simp: pack_id_of_def)

lemma zip_path_of_pack_id:
  "zip_path_of (pack_id_of t) = ''runtime/evidence/evidence_'' @ str_int (py_int t) @ ''.zip''"
  by (simp add: zip_path_of_def pack_id_of_def path_join_def EVIDENCE_DIR_def)

lemma zip_path_of_eq:
  "(zip_path_of (pack_id_of t1) = zip_path_of (pack_id_of t2)) = (py_int t1 = py_int t2)"
  using str_int_inj [of "py_int t1" "py_int t2"] by (auto simp: zip_path_of_pack_id)

lemma build_written:
  "build_evidence_pack now_iso t (ZipWritten n) w =
     (Inr \<lparr> er_ok = True, er_pack_id = pack_id_of t, er_zip_path = zip_path_of (pack_id_of t),
            er_size_bytes = n, er_created_at = now_iso \<rparr>,
      w\<lparr>fs := (fs w)(zip_path_of (pack_id_of t) \<mapsto>
            ZipPack now_iso (state w)
              (case truthy_name (lb_file (last_backup (state w))) of
                 None \<Rightarrow> None
               | Some name \<Rightarrow>
                   (case fs w (path_join BACKUP_DIR name) of
                      None \<Rightarrow> None
                    | Some b \<Rightarrow> Some (''backups/'' @ name, b))) n)\<rparr>)"
  by (simp add: build_evidence_pack_def Let_def)

subsection \<open>The backup record along a run\<close>

lemma on_state_last_backup_simulate_fail:
  "last_backup (snd (simulate_fail s)) = last_backup s"
  by (simp add: simulate_fail_def Let_def split: option.split)

lemma on_state_last_backup_self_heal:
  "last_backup (snd (self_heal a b h s)) = last_backup s"
  by (simp add: self_heal_def Let_def split: option.split)

lemma on_state_last_backup_real_fail:
  "last_backup (snd (real_fail h s)) = last_backup s"
  by (simp add: real_fail_def Let_def)

lemma on_state_last_backup_real_heal:
  "last_backup (snd (real_heal h s)) = last_backup s"
  by (simp add: real_heal_def Let_def split: option.split prod.split)

lemma state_on_state: "state (snd (on_state f w)) = snd (f (state w))"
  by (simp add: on_state_def split: prod.split)

lemma state_get_scope_kpis: "state (snd (get_scope_kpis disk scope qid w)) = state w"
  by (simp add: get_scope_kpis_def load_catalog_def split: option.split)

lemma state_build_evidence_pack: "state (snd (build_evidence_pack i t outcome w)) = state w"
  by (cases outcome) (simp_all add: build_evidence_pack_def Let_def split: option.split)

lemma last_backup_step:
  "last_backup (state (step r w)) =
     (if completes_backup r
      then (case r of RunBackup now_iso t (BackupWritten n) \<Rightarrow>
              \<lparr> lb_ts = Some now_iso, lb_file = Some (backup_filename t), lb_size = n \<rparr>)
      else last_backup (state w))"
proof (cases r)
  case (RunBackup now_iso t outcome)
  then show ?thesis by (cases outcome) (simp_all add: run_backup_def Let_def)
qed (simp_all add: state_on_state on_state_last_backup_simulate_fail on_state_last_backup_self_heal
      on_state_last_backup_real_fail on_state_last_backup_real_heal state_get_scope_kpis
      state_build_evidence_pack verify_backup_def download_evidence_def Let_def
      split: option.split)

lemma truthy_backup_filename: "truthy_name (Some (backup_filename t)) = Some (backup_filename t)"
  by (simp add: truthy_name_def backup_filename_def)

lemma truthy_step:
  "(truthy_name (lb_file (last_backup (state (step r w)))) \<noteq> None) =
     (completes_backup r \<or> truthy_name (lb_file (last_backup (state w))) \<noteq> None)"
proof (cases "completes_backup r")
  case True
  then obtain now_iso t n where "r = RunBackup now_iso t (BackupWritten n)"
    by (cases r rule: completes_backup.cases) simp_all
  then show ?thesis by (simp add: last_backup_step truthy_backup_filename del: step.simps)
next
  case False
  then show ?thesis by (simp add: last_backup_step del: step.simps)
qed

lemma truthy_run:
  "(truthy_name (lb_file (last_backup (state (run rs w)))) \<noteq> None) =
     (backup_created rs \<or> truthy_name (lb_file (last_backup (state w))) \<noteq> None)"
proof (induction rs arbitrary: w)
  case Nil
  then show ?case by (simp add: backup_created_def)
next
  case (Cons r rs)
  have "(truthy_name (lb_file (last_backup (state (run (r # rs) w)))) \<noteq> None) =
        (backup_created rs \<or> truthy_name (lb_file (last_backup (state (step r w)))) \<noteq> None)"
    using Cons.IH [of "step r w"] by simp
  also have "\<dots> = (backup_created rs \<or> completes_backup r
                      \<or> truthy_name (lb_file (last_backup (state w))) \<noteq> None)"
    using truthy_step [of r w] by blast
  also have "\<dots> = (backup_created (r # rs) \<or> truthy_name (lb_file (last_backup (state w))) \<noteq> None)"
    by (auto simp: backup_created_def)
  finally show ?case .
qed

lemma verify_backup_cases:
  "verify_backup w =
     (case truthy_name (lb_file (last_backup (state w))) of
        None \<Rightarrow> (Inl (HTTPException 404 ''No backup found''), w)
      | Some name \<Rightarrow>
          (if exists_nonempty (fs w) (path_join BACKUP_DIR name) then (Inr True, w)
           else (Inl (HTTPException 500 ''Backup file missing or empty''), w)))"
  by (simp add: verify_backup_def Let_def split: option.split)

lemma exists_nonempty_iff:
  "(\<not> exists_nonempty files p) = (files p = None \<or> (\<exists>f. files p = Some f \<and> file_size f = 0))"
  by (cases "files p") (simp_all add: exists_nonempty_def)

subsection \<open>The incident log along a run of served requests\<close>

lemma incidents_real_fail:
  "incidents (snd (real_fail hms s)) =
     (if 5 \<le> length (incidents s)
      then \<lparr> inc_ts = hms, inc_type = ''api_failure_demo'', inc_action = ''restart_api'',
             inc_result = ''Pending'', inc_severity = ''HIGH'', inc_duration_ms = 0 \<rparr>
           # butlast (incidents s)
      else \<lparr> inc_ts = hms, inc_type = ''api_failure_demo'', inc_action = ''restart_api'',
             inc_result = ''Pending'', inc_severity = ''HIGH'', inc_duration_ms = 0 \<rparr>
           # incidents s)"
  by (cases "incidents s") (auto simp: real_fail_def Let_def)

lemma incidents_self_heal:
  "incidents (snd (self_heal start finish hms s)) =
     (if 5 \<le> length (incidents s)
      then \<lparr> inc_ts = hms, inc_type = ''Latency Spike'', inc_action = ''Auto-Scale + Cache Flush'',
             inc_result = ''Resolved'', inc_severity = ''HIGH'',
             inc_duration_ms = elapsed_ms start finish \<rparr>
           # butlast (incidents s)
      else \<lparr> inc_ts = hms, inc_type = ''Latency Spike'', inc_action = ''Auto-Scale + Cache Flush'',
             inc_result = ''Resolved'', inc_severity = ''HIGH'',
             inc_duration_ms = elapsed_ms start finish \<rparr>
           # incidents s)"
  by (cases "incidents s") (auto simp: self_heal_def Let_def split: option.split)

lemma incidents_simulate_fail: "incidents (snd (simulate_fail s)) = incidents s"
  by (simp add: simulate_fail_def Let_def split: option.split)

lemma state_run_backup_incidents:
  "incidents (state (snd (run_backup now_iso t outcome w))) = incidents (state w)"
  by (cases outcome) (simp_all add: run_backup_def Let_def)

lemma incidents_step_other:
  assumes "served r" and "\<forall>hms. r \<noteq> RealFail hms" and "\<forall>start finish hms. r \<noteq> SelfHeal start finish hms"
  shows "incidents (state (step r w)) = incidents (state w)"
  using assms
  by (cases r)
    (simp_all add: state_on_state incidents_simulate_fail state_run_backup_incidents
      state_get_scope_kpis state_build_evidence_pack verify_backup_cases download_evidence_def
      split: option.split)



lemma ball_capped:
  "P n \<Longrightarrow> \<forall>x\<in>set xs. P x \<Longrightarrow> \<forall>x\<in>set (if c then n # butlast xs else n # xs). P x"
  by (auto dest: in_set_butlastD)

lemma live_step:
  assumes "served r" and "\<forall>inc\<in>set (incidents (state w)). live_record inc"
  shows "\<forall>inc\<in>set (incidents (state (step r w))). live_record inc"
proof (cases r)
  case (RealFail hms)
  have "live_record \<lparr> inc_ts = hms, inc_type = ''api_failure_demo'', inc_action = ''restart_api'',
             inc_result = ''Pending'', inc_severity = ''HIGH'', inc_duration_ms = 0 \<rparr>"
    by (simp add: live_record_def)
  from ball_capped [of live_record, OF this assms(2)] show ?thesis
    by (simp only: RealFail step.simps state_on_state incidents_real_fail)
next
  case (SelfHeal start finish hms)
  have "live_record \<lparr> inc_ts = hms, inc_type = ''Latency Spike'', inc_action = ''Auto-Scale + Cache Flush'',
             inc_result = ''Resolved'', inc_severity = ''HIGH'',
             inc_duration_ms = elapsed_ms start finish \<rparr>"
    by (simp add: live_record_def)
  from ball_capped [of live_record, OF this assms(2)] show ?thesis
    by (simp only: SelfHeal step.simps state_on_state incidents_self_heal)
next
  case (RealHeal hms)
  then show ?thesis using assms(1) by simp
next
  case SimulateFail
  then have "incidents (state (step r w)) = incidents (state w)"
    using incidents_step_other [of r w] by simp
  then show ?thesis using assms(2) by simp
next
  case (RunBackup now_iso t outcome)
  then have "incidents (state (step r w)) = incidents (state w)"
    using incidents_step_other [of r w] by simp
  then show ?thesis using assms(2) by simp
next
  case VerifyBackup
  then have "incidents (state (step r w)) = incidents (state w)"
    using incidents_step_other [of r w] by simp
  then show ?thesis using assms(2) by simp
next
  case (BuildEvidencePack now_iso t outcome)
  then have "incidents (state (step r w)) = incidents (state w)"
    using incidents_step_other [of r w] by simp
  then show ?thesis using assms(2) by simp
next
  case (DownloadEvidence pack_id)
  then have "incidents (state (step r w)) = incidents (state w)"
    using incidents_step_other [of r w] by simp
  then show ?thesis using assms(2) by simp
next
  case (GetScopeKpis disk scope qid)
  then have "incidents (state (step r w)) = incidents (state w)"
    using incidents_step_other [of r w] by simp
  then show ?thesis using assms(2) by simp
next
  case (FsChange p f)
  then show ?thesis using assms(2) by simp
qed

lemma live_run:
  "\<forall>inc\<in>set (incidents (state w)). live_record inc \<Longrightarrow> \<forall>r\<in>set rs. served r \<Longrightarrow>
   \<forall>inc\<in>set (incidents (state (run rs w))). live_record inc"
proof (induction rs arbitrary: w)
  case Nil
  then show ?case by simp
next
  case (Cons r rs)
  have "\<forall>inc\<in>set (incidents (state (step r w))). live_record inc"
    using live_step [of r w] Cons.prems by simp
  then show ?case using Cons.IH [of "step r w"] Cons.prems by simp
qed

lemma served_run_records:
  assumes "state w0 = initial_state" and "\<forall>r\<in>set rs. served r"
  shows "\<forall>inc\<in>set (incidents (state (run rs w0))). live_record inc"
  using live_run [of w0 rs] assms by (simp add: initial_state_def)

subsection \<open>The handler that is never dispatched\<close>

text \<open>
  What \<open>real_heal\<close> would do if it were called: with a pending \<open>api_failure_demo\<close> record
  in the log it updates the most recent one in place; with none it puts the manual-restart
  record in front, without a pop.
\<close>

lemma real_heal_by_hand_recovers:
  assumes "\<exists>inc\<in>set (incidents s). pending_demo inc" and "workflows s \<noteq> []"
  shows "\<exists>pre p post.
           incidents s = pre @ p # post \<and> (\<forall>x\<in>set pre. \<not> pending_demo x) \<and> pending_demo p
           \<and> fst (real_heal hms s) =
               Inr (''System Restored'', p\<lparr>inc_result := ''Recovered'', inc_duration_ms := 12800\<rparr>)
           \<and> incidents (snd (real_heal hms s)) =
               pre @ p\<lparr>inc_result := ''Recovered'', inc_duration_ms := 12800\<rparr> # post
           \<and> length (incidents (snd (real_heal hms s))) = length (incidents s)
           \<and> system_status (snd (real_heal hms s)) = ''OK''"
proof -
  from recover_pending_some[OF assms(1)] obtain pre p post where
    h: "incidents s = pre @ p # post" "\<forall>x\<in>set pre. \<not> pending_demo x" "pending_demo p"
       "recover_pending (incidents s) =
          (Some (p\<lparr>inc_result := ''Recovered'', inc_duration_ms := 12800\<rparr>),
           pre @ p\<lparr>inc_result := ''Recovered'', inc_duration_ms := 12800\<rparr> # post)"
    by blast
  have "fst (real_heal hms s) =
               Inr (''System Restored'', p\<lparr>inc_result := ''Recovered'', inc_duration_ms := 12800\<rparr>)
           \<and> incidents (snd (real_heal hms s)) =
               pre @ p\<lparr>inc_result := ''Recovered'', inc_duration_ms := 12800\<rparr> # post
           \<and> system_status (snd (real_heal hms s)) = ''OK''"
    using h(4) assms(2) by (simp add: real_heal_def set_workflow0_status_nonempty)
  then show ?thesis using h(1,2,3) by auto
qed

lemma real_heal_by_hand_without_pending:
  assumes "\<forall>inc\<in>set (incidents s). \<not> pending_demo inc"
  shows "incidents (snd (real_heal hms s)) =
           \<lparr> inc_ts = hms, inc_type = ''api_restart_manual'', inc_action = ''restart_api'',
             inc_result = ''Recovered'', inc_severity = ''HIGH'', inc_duration_ms = 12800 \<rparr>
           # incidents s"
  using recover_pending_none [OF assms]
  by (simp add: real_heal_def Let_def split: option.split)

section \<open>The fail transitions\<close>

text \<open>
  Claim C2, as amended. Every fail transition, from any state, sets the health to
  \<open>DEGRADED\<close> and sets \<open>last_incident\<close> to a fixed description. \<open>simulate_fail\<close> also sets
  the status of workflow 0 to the marker \<open>Retrying...\<close> (when there is a workflow 0).
  \<open>real_fail\<close> also inserts a new incident record at the front of the log with result
  \<open>Pending\<close>, severity \<open>HIGH\<close> and duration 0, and then drops the last (oldest) record if
  the log has more than 5 entries.
\<close>

theorem fail_transitions:
  "system_status (snd (simulate_fail s)) = ''DEGRADED''
   \<and> last_incident (snd (simulate_fail s)) = Some ''API Latency Spike detected''
   \<and> (workflows s \<noteq> [] \<longrightarrow>
        fst (simulate_fail s) = Inr ''System set to DEGRADED''
        \<and> workflows (snd (simulate_fail s)) =
            (hd (workflows s))\<lparr>wf_status := ''Retrying...''\<rparr> # tl (workflows s))
   \<and> system_status (snd (real_fail hms s)) = ''DEGRADED''
   \<and> last_incident (snd (real_fail hms s)) = Some ''Critical Failure: API Unresponsive''
   \<and> fst (real_fail hms s) =
       Inr (''System DEGRADED'',
            \<lparr> inc_ts = hms, inc_type = ''api_failure_demo'', inc_action = ''restart_api'',
              inc_result = ''Pending'', inc_severity = ''HIGH'', inc_duration_ms = 0 \<rparr>)
   \<and> incidents (snd (real_fail hms s)) =
       (let l = \<lparr> inc_ts = hms, inc_type = ''api_failure_demo'', inc_action = ''restart_api'',
                  inc_result = ''Pending'', inc_severity = ''HIGH'', inc_duration_ms = 0 \<rparr>
                # incidents s
        in if length l > 5 then butlast l else l)"
  by (cases "workflows s")
    (simp_all add: simulate_fail_def real_fail_def set_workflow0_status_def Let_def)

theorem fail_transitions_witness:
  "workflows (snd (simulate_fail initial_state)) =
     [ \<lparr> wf_name = ''Incident Agent'', wf_status = ''Retrying...'',
         wf_last_run = ''2m ago'', wf_next_run = ''in 3m'' \<rparr>,
       \<lparr> wf_name = ''Evidence Agent'', wf_status = ''Running'',
         wf_last_run = ''5m ago'', wf_next_run = ''in 10m'' \<rparr>,
       \<lparr> wf_name = ''Backup Agent'', wf_status = ''Idle'',
         wf_last_run = ''1h ago'', wf_next_run = ''in 5h'' \<rparr>,
       \<lparr> wf_name = ''Forecast Refresh'', wf_status = ''Running'',
         wf_last_run = ''10m ago'', wf_next_run = ''in 50m'' \<rparr> ]
   \<and> incidents (snd (real_fail ''12:00:00'' initial_state)) =
       [ \<lparr> inc_ts = ''12:00:00'', inc_type = ''api_failure_demo'', inc_action = ''restart_api'',
           inc_result = ''Pending'', inc_severity = ''HIGH'', inc_duration_ms = 0 \<rparr> ]"
  using fail_transitions [of initial_state "''12:00:00''"]
  by (simp add: initial_state_def)

text \<open>
  The claim as stated fails for both handlers: from the initial state \<open>simulate_fail\<close>
  leaves the incident log empty, and \<open>real_fail\<close> leaves workflow 0 \<open>Running\<close>.
\<close>

theorem fail_transitions_counterexample:
  "incidents (snd (simulate_fail initial_state)) = []
   \<and> wf_status (hd (workflows (snd (real_fail ''12:00:00'' initial_state)))) = ''Running''"
  by (simp add: simulate_fail_def real_fail_def set_workflow0_status_def initial_state_def Let_def)

section \<open>The heal transition\<close>

text \<open>
  Claim C1 at its failing input. From the initial state, a fail request on
  \<open>/api/selfheal/fail\<close> logs a pending \<open>api_failure_demo\<close> record; the heal request that
  follows is served by \<open>self_heal\<close>. It ends with health \<open>OK\<close>, but the pending record
  stays as it was (result \<open>Pending\<close>, duration 0) and a second record is put in front
  of it: the log holds two records for the one failure.
\<close>

theorem fail_then_heal_leaves_pending:
  "incidents (state (run [RealFail ''12:00:00'', SelfHeal 1700000000 1700000002 ''12:00:02'']
      (initial_world Map.empty))) =
     [ \<lparr> inc_ts = ''12:00:02'', inc_type = ''Latency Spike'',
         inc_action = ''Auto-Scale + Cache Flush'', inc_result = ''Resolved'',
         inc_severity = ''HIGH'', inc_duration_ms = 2000 \<rparr>,
       \<lparr> inc_ts = ''12:00:00'', inc_type = ''api_failure_demo'', inc_action = ''restart_api'',
         inc_result = ''Pending'', inc_severity = ''HIGH'', inc_duration_ms = 0 \<rparr> ]
   \<and> system_status (state (run [RealFail ''12:00:00'', SelfHeal 1700000000 1700000002 ''12:00:02'']
      (initial_world Map.empty))) = ''OK''"
  by (simp add: on_state_def real_fail_def self_heal_def set_workflow0_status_def elapsed_ms_def
      py_int_def initial_world_def initial_state_def Let_def)

text \<open>
  Claim C7 at its failing input. A heal request from the initial state, with no fail before
  it, is served by \<open>self_heal\<close>: it ends with health \<open>OK\<close> and inserts a synthesized
  record, but that record is the resolved latency spike with action
  \<open>Auto-Scale + Cache Flush\<close>, not a manual-restart record.
\<close>

theorem heal_without_fail_logs_latency_spike:
  "fst (on_state (self_heal 1700000000 1700000002 ''09:30:02'') (initial_world Map.empty)) =
     Inr (''System Healed'',
          \<lparr> inc_ts = ''09:30:02'', inc_type = ''Latency Spike'',
            inc_action = ''Auto-Scale + Cache Flush'', inc_result = ''Resolved'',
            inc_severity = ''HIGH'', inc_duration_ms = 2000 \<rparr>)
   \<and> incidents (state (run [SelfHeal 1700000000 1700000002 ''09:30:02''] (initial_world Map.empty))) =
     [ \<lparr> inc_ts = ''09:30:02'', inc_type = ''Latency Spike'',
         inc_action = ''Auto-Scale + Cache Flush'', inc_result = ''Resolved'',
         inc_severity = ''HIGH'', inc_duration_ms = 2000 \<rparr> ]
   \<and> system_status (state (run [SelfHeal 1700000000 1700000002 ''09:30:02'']
        (initial_world Map.empty))) = ''OK''"
  by (simp add: on_state_def self_heal_def set_workflow0_status_def elapsed_ms_def
      py_int_def initial_world_def initial_state_def Let_def)

section \<open>The cap of the incident log\<close>



section \<open>Scope resolution\<close>

text \<open>
  Claim C4. With a catalog loaded, the \<open>department\<close> scope with id \<open>x\<close> returns the first
  department with that id in catalog order, whichever faculty owns it and whatever later
  faculties hold, and fails with status 404 exactly when no faculty has such a department.
\<close>

theorem department_scope_first_match:
  assumes "fst (load_catalog disk w) = Some c"
  shows "fst (get_scope_kpis disk ''department'' (Some x) w) =
           (case first_department_in_catalog_order x c of
              Some d \<Rightarrow>
                Inr [ (''scope'', JStr ''department''), (''name'', JStr (dept_name d)),
                      (''kpis'', dept_kpis d), (''levers'', get_levers (dept_levers d)) ]
            | None \<Rightarrow> Inl (HTTPException 404 ''Department not found''))
         \<and> (fst (get_scope_kpis disk ''department'' (Some x) w) =
               Inl (HTTPException 404 ''Department not found'')) =
             (\<not> (\<exists>f\<in>set (cat_faculties c). \<exists>d\<in>set (get_departments f). dept_id d = x))"
proof -
  obtain w' where l: "load_catalog disk w = (Some c, w')"
    using assms by (cases "load_catalog disk w") simp
  have r: "fst (get_scope_kpis disk ''department'' (Some x) w) =
           (case first_department_in_catalog_order x c of
              Some d \<Rightarrow>
                Inr [ (''scope'', JStr ''department''), (''name'', JStr (dept_name d)),
                      (''kpis'', dept_kpis d), (''levers'', get_levers (dept_levers d)) ]
            | None \<Rightarrow> Inl (HTTPException 404 ''Department not found''))"
    by (simp add: get_scope_kpis_def l first_department_in_catalog_order_def
        search_faculties_concat split: option.split)
  have n: "(first_department_in_catalog_order x c = None) =
             (\<not> (\<exists>f\<in>set (cat_faculties c). \<exists>d\<in>set (get_departments f). dept_id d = x))"
    by (simp add: first_department_in_catalog_order_def find_None_set)
  have "(fst (get_scope_kpis disk ''department'' (Some x) w) =
               Inl (HTTPException 404 ''Department not found'')) =
        (first_department_in_catalog_order x c = None)"
    by (simp add: r split: option.split)
  with r n show ?thesis by simp
qed

theorem department_scope_first_match_witness:
  "fst (get_scope_kpis (Some demo_catalog) ''department'' (Some ''design'') (initial_world Map.empty)) =
     Inr [ (''scope'', JStr ''department''), (''name'', JStr ''Design (Arts)''),
           (''kpis'', JObj [(''progress'', JInt 7)]), (''levers'', JList []) ]
   \<and> fst (get_scope_kpis (Some demo_catalog) ''department'' (Some ''physics'') (initial_world Map.empty)) =
       Inl (HTTPException 404 ''Department not found'')"
proof -
  have l: "fst (load_catalog (Some demo_catalog) (initial_world Map.empty)) = Some demo_catalog"
    by (simp add: load_catalog_def initial_world_def)
  show ?thesis
    using department_scope_first_match [OF l, of "''design''"]
      department_scope_first_match [OF l, of "''physics''"]
    by (simp add: first_department_in_catalog_order_def demo_catalog_def get_departments_def
        get_levers_def)
qed

text \<open>
  Claim C5, as amended. With a catalog loaded, the \<open>faculty\<close> scope fails with status 404
  exactly when no faculty has the given id. With no catalog loaded it does not fail: it
  returns the hardcoded campus snapshot, whatever the id.
\<close>

theorem faculty_scope_not_found:
  "(fst (load_catalog disk w) = Some c \<longrightarrow>
      (fst (get_scope_kpis disk ''faculty'' qid w) = Inl (HTTPException 404 ''Faculty not found''))
        = (\<not> (\<exists>f\<in>set (cat_faculties c). Some (fac_id f) = qid)))
   \<and> (fst (load_catalog disk w) = None \<longrightarrow>
        fst (get_scope_kpis disk ''faculty'' qid w) = Inr fallback_scope)"
proof (intro conjI impI)
  assume "fst (load_catalog disk w) = Some c"
  then obtain w' where l: "load_catalog disk w = (Some c, w')"
    by (cases "load_catalog disk w") simp
  show "(fst (get_scope_kpis disk ''faculty'' qid w) = Inl (HTTPException 404 ''Faculty not found''))
        = (\<not> (\<exists>f\<in>set (cat_faculties c). Some (fac_id f) = qid))"
    using find_None_set [of "\<lambda>f. Some (fac_id f) = qid" "cat_faculties c"]
    by (cases "find (\<lambda>f. Some (fac_id f) = qid) (cat_faculties c)")
      (simp_all add: get_scope_kpis_def l)
next
  assume "fst (load_catalog disk w) = None"
  then obtain w' where l: "load_catalog disk w = (None, w')"
    by (cases "load_catalog disk w") simp
  show "fst (get_scope_kpis disk ''faculty'' qid w) = Inr fallback_scope"
    by (simp add: get_scope_kpis_def l)
qed

theorem faculty_scope_not_found_witness:
  "fst (get_scope_kpis (Some demo_catalog) ''faculty'' (Some ''unknown'') (initial_world Map.empty)) =
     Inl (HTTPException 404 ''Faculty not found'')
   \<and> fst (get_scope_kpis None ''faculty'' (Some ''unknown'') (initial_world Map.empty)) =
       Inr fallback_scope"
proof -
  have l: "fst (load_catalog (Some demo_catalog) (initial_world Map.empty)) = Some demo_catalog"
    by (simp add: load_catalog_def initial_world_def)
  have n: "fst (load_catalog None (initial_world Map.empty)) = None"
    by (simp add: load_catalog_def initial_world_def)
  show ?thesis
    using faculty_scope_not_found [of "Some demo_catalog" "initial_world Map.empty" demo_catalog "Some ''unknown''"]
      faculty_scope_not_found [of None "initial_world Map.empty" demo_catalog "Some ''unknown''"] l n
    by (simp add: demo_catalog_def)
qed

text \<open>
  The claim as stated fails with no catalog: the \<open>faculty\<close> scope with an unknown id
  returns the campus snapshot instead of failing.
\<close>

theorem faculty_scope_not_found_counterexample:
  "fst (get_scope_kpis None ''faculty'' (Some ''unknown'') (initial_world Map.empty)) =
     Inr [ (''scope'', JStr ''campus''),
           (''kpis'', JObj [ (''co2e_t'', JInt 18450), (''energy_mwh'', JInt 14200),
                             (''water_m3'', JInt 45000), (''intensity'', JFloat 1.2),
                             (''progress'', JInt 42) ]),
           (''levers'', JList []) ]"
  by (simp add: get_scope_kpis_def load_catalog_def initial_world_def fallback_scope_def)

text \<open>
  Claim C6. With no catalog loaded (none cached, none on disk), the \<open>campus\<close> scope
  returns the literal snapshot with empty levers, does not fail and changes nothing.
\<close>

theorem campus_fallback:
  assumes "catalog_cache w = None"
  shows "get_scope_kpis None ''campus'' qid w =
           (Inr [ (''scope'', JStr ''campus''),
                  (''kpis'', JObj [ (''co2e_t'', JInt 18450), (''energy_mwh'', JInt 14200),
                                    (''water_m3'', JInt 45000), (''intensity'', JFloat 1.2),
                                    (''progress'', JInt 42) ]),
                  (''levers'', JList []) ], w)"
  using assms by (simp add: get_scope_kpis_def load_catalog_def fallback_scope_def)

theorem campus_fallback_witness:
  "catalog_cache (initial_world Map.empty) = None
   \<and> get_scope_kpis None ''campus'' None (initial_world Map.empty) =
           (Inr [ (''scope'', JStr ''campus''),
                  (''kpis'', JObj [ (''co2e_t'', JInt 18450), (''energy_mwh'', JInt 14200),
                                    (''water_m3'', JInt 45000), (''intensity'', JFloat 1.2),
                                    (''progress'', JInt 42) ]),
                  (''levers'', JList []) ], initial_world Map.empty)"
proof -
  have h: "catalog_cache (initial_world Map.empty) = None" by (simp add: initial_world_def)
  show ?thesis using h campus_fallback [OF h, of None] by simp
qed

text \<open>
  Claim C10. With a catalog loaded, a scope other than \<open>campus\<close>, \<open>faculty\<close> and
  \<open>department\<close> gives the empty object and no error. With the catalog already cached the
  whole process state stays as it was; on the call that loads the catalog from disk the
  only change is that the cache is filled.
\<close>

theorem unknown_scope_empty:
  assumes "scope \<noteq> ''campus''" and "scope \<noteq> ''faculty''" and "scope \<noteq> ''department''"
  shows "(catalog_cache w = Some c \<longrightarrow> get_scope_kpis disk scope qid w = (Inr [], w))
       \<and> (catalog_cache w = None \<longrightarrow>
            get_scope_kpis (Some c) scope qid w = (Inr [], w\<lparr>catalog_cache := Some c\<rparr>))"
  using assms by (simp add: get_scope_kpis_def load_catalog_def)

theorem unknown_scope_empty_witness:
  "get_scope_kpis None ''building'' (Some ''b1'')
     ((initial_world Map.empty)\<lparr>catalog_cache := Some demo_catalog\<rparr>) =
     (Inr [], (initial_world Map.empty)\<lparr>catalog_cache := Some demo_catalog\<rparr>)
   \<and> get_scope_kpis (Some demo_catalog) ''building'' (Some ''b1'') (initial_world Map.empty) =
     (Inr [], (initial_world Map.empty)\<lparr>catalog_cache := Some demo_catalog\<rparr>)"
proof -
  have a: "''building'' \<noteq> ''campus''" "''building'' \<noteq> ''faculty''" "''building'' \<noteq> ''department''"
    by simp_all
  show ?thesis
    using unknown_scope_empty [OF a, of "(initial_world Map.empty)\<lparr>catalog_cache := Some demo_catalog\<rparr>" demo_catalog None "Some ''b1''"]
      unknown_scope_empty [OF a, of "initial_world Map.empty" demo_catalog None "Some ''b1''"]
    by (simp add: initial_world_def)
qed

section \<open>Backups and evidence packs\<close>

text \<open>
  Claim C9. Along any run from the initial state, \<open>verify_backup\<close> fails with status 404
  exactly when no \<open>run_backup\<close> call of the run has completed. Once one has, it fails with
  status 500 exactly when the file the backup record names is missing or has size zero,
  and succeeds exactly when that file exists with a positive size. It changes nothing.
\<close>

theorem verify_backup_outcomes:
  assumes "state w0 = initial_state" and "w = run rs w0"
  shows "(fst (verify_backup w) = Inl (HTTPException 404 ''No backup found'')) = (\<not> backup_created rs)
       \<and> (backup_created rs \<longrightarrow>
            (\<exists>name. lb_file (last_backup (state w)) = Some name
               \<and> (fst (verify_backup w) = Inl (HTTPException 500 ''Backup file missing or empty''))
                   = (fs w (path_join BACKUP_DIR name) = None
                      \<or> (\<exists>f. fs w (path_join BACKUP_DIR name) = Some f \<and> file_size f = 0))
               \<and> (fst (verify_backup w) = Inr True)
                   = (\<exists>f. fs w (path_join BACKUP_DIR name) = Some f \<and> 0 < file_size f)))
       \<and> snd (verify_backup w) = w"
proof -
  have init: "truthy_name (lb_file (last_backup (state w0))) = None"
    by (simp add: assms(1) initial_state_def truthy_name_def)
  have t: "(truthy_name (lb_file (last_backup (state w))) \<noteq> None) = backup_created rs"
    using truthy_run [of rs w0] init assms(2) by simp
  have a: "(fst (verify_backup w) = Inl (HTTPException 404 ''No backup found'')) = (\<not> backup_created rs)"
    using t by (cases "truthy_name (lb_file (last_backup (state w)))") (simp_all add: verify_backup_cases)
  have c: "snd (verify_backup w) = w"
    by (simp add: verify_backup_cases split: option.split)
  have b: "\<exists>name. lb_file (last_backup (state w)) = Some name
               \<and> (fst (verify_backup w) = Inl (HTTPException 500 ''Backup file missing or empty''))
                   = (fs w (path_join BACKUP_DIR name) = None
                      \<or> (\<exists>f. fs w (path_join BACKUP_DIR name) = Some f \<and> file_size f = 0))
               \<and> (fst (verify_backup w) = Inr True)
                   = (\<exists>f. fs w (path_join BACKUP_DIR name) = Some f \<and> 0 < file_size f)"
    if cr: "backup_created rs"
  proof -
    from cr t obtain name where n: "truthy_name (lb_file (last_backup (state w))) = Some name"
      by auto
    then have f: "lb_file (last_backup (state w)) = Some name"
      by (auto simp: truthy_name_def split: option.splits if_splits)
    have e: "exists_nonempty (fs w) (path_join BACKUP_DIR name)
             = (\<exists>f. fs w (path_join BACKUP_DIR name) = Some f \<and> 0 < file_size f)"
      by (cases "fs w (path_join BACKUP_DIR name)") (simp_all add: exists_nonempty_def)
    have "(fst (verify_backup w) = Inl (HTTPException 500 ''Backup file missing or empty''))
            = (\<not> exists_nonempty (fs w) (path_join BACKUP_DIR name))"
      by (simp add: verify_backup_cases n)
    moreover have "(fst (verify_backup w) = Inr True) = exists_nonempty (fs w) (path_join BACKUP_DIR name)"
      by (simp add: verify_backup_cases n)
    ultimately show ?thesis using f e exists_nonempty_iff [of "fs w" "path_join BACKUP_DIR name"]
      by auto
  qed
  from a b c show ?thesis by blast
qed

theorem verify_backup_outcomes_witness:
  "fst (verify_backup (run [RealFail ''08:00:00''] (initial_world Map.empty))) =
     Inl (HTTPException 404 ''No backup found'')
   \<and> fst (verify_backup (run [RunBackup ''2023-11-14T22:13:20'' 1700000000 (BackupWritten 2048)]
            (initial_world Map.empty))) = Inr True
   \<and> fst (verify_backup (run [RunBackup ''2023-11-14T22:13:20'' 1700000000 (BackupWritten 2048),
                               FsChange ''runtime/backups/backup_1700000000.tar.gz'' None]
            (initial_world Map.empty))) = Inl (HTTPException 500 ''Backup file missing or empty'')"
proof -
  have i: "state (initial_world Map.empty) = initial_state" by (simp add: initial_world_def)
  have n: "\<not> backup_created [RealFail ''08:00:00'']" by (simp add: backup_created_def)
  have a: "fst (verify_backup (run [RealFail ''08:00:00''] (initial_world Map.empty))) =
     Inl (HTTPException 404 ''No backup found'')"
    using verify_backup_outcomes [OF i refl, of "[RealFail ''08:00:00'']"] n by simp
  have "fst (verify_backup (run [RunBackup ''2023-11-14T22:13:20'' 1700000000 (BackupWritten 2048)]
            (initial_world Map.empty))) = Inr True
   \<and> fst (verify_backup (run [RunBackup ''2023-11-14T22:13:20'' 1700000000 (BackupWritten 2048),
                               FsChange ''runtime/backups/backup_1700000000.tar.gz'' None]
            (initial_world Map.empty))) = Inl (HTTPException 500 ''Backup file missing or empty'')"
    using verify_backup_outcomes [OF i refl,
        of "[RunBackup ''2023-11-14T22:13:20'' 1700000000 (BackupWritten 2048)]"]
    by (simp add: verify_backup_cases run_backup_def backup_filename_def path_join_def BACKUP_DIR_def
        py_int_def str_int_def str_nat.simps digit_char_def initial_world_def initial_state_def
        truthy_name_def exists_nonempty_def backup_created_def Let_def)
  with a show ?thesis by simp
qed

text \<open>
  Claim C8, as amended. Two consecutive \<open>build_evidence_pack\<close> calls that both write their
  archive produce the identifiers \<open>evidence_\<close> followed by the whole second of their clock
  reading: the identifiers, and the archive paths, differ exactly when the two readings
  fall in different whole seconds. Then the first pack downloads after the second call as
  it did before it; within one second the second archive takes the place of the first.
\<close>

theorem evidence_packs_by_second:
  assumes "build_evidence_pack iso1 t1 (ZipWritten n1) w = (Inr r1, w1)"
    and "build_evidence_pack iso2 t2 (ZipWritten n2) w1 = (Inr r2, w2)"
  shows "er_pack_id r1 = pack_id_of t1 \<and> er_pack_id r2 = pack_id_of t2
       \<and> (er_pack_id r1 = er_pack_id r2) = (py_int t1 = py_int t2)
       \<and> (er_zip_path r1 = er_zip_path r2) = (py_int t1 = py_int t2)
       \<and> (\<exists>p1 p2. fst (download_evidence (er_pack_id r1) w1) = Inr p1
             \<and> fst (download_evidence (er_pack_id r2) w2) = Inr p2
             \<and> fst (download_evidence (er_pack_id r1) w2) =
                 (if py_int t1 = py_int t2 then Inr p2 else Inr p1))"
proof -
  from assms(1) have r1: "er_pack_id r1 = pack_id_of t1" "er_zip_path r1 = zip_path_of (pack_id_of t1)"
    and w1: "w1 = w\<lparr>fs := (fs w)(zip_path_of (pack_id_of t1) \<mapsto>
            ZipPack iso1 (state w)
              (case truthy_name (lb_file (last_backup (state w))) of
                 None \<Rightarrow> None
               | Some name \<Rightarrow>
                   (case fs w (path_join BACKUP_DIR name) of
                      None \<Rightarrow> None
                    | Some b \<Rightarrow> Some (''backups/'' @ name, b))) n1)\<rparr>"
    by (auto simp: build_written)
  from assms(2) have r2: "er_pack_id r2 = pack_id_of t2" "er_zip_path r2 = zip_path_of (pack_id_of t2)"
    and w2: "w2 = w1\<lparr>fs := (fs w1)(zip_path_of (pack_id_of t2) \<mapsto>
            ZipPack iso2 (state w1)
              (case truthy_name (lb_file (last_backup (state w1))) of
                 None \<Rightarrow> None
               | Some name \<Rightarrow>
                   (case fs w1 (path_join BACKUP_DIR name) of
                      None \<Rightarrow> None
                    | Some b \<Rightarrow> Some (''backups/'' @ name, b))) n2)\<rparr>"
    by (auto simp: build_written)
  have d1: "\<exists>p1. fs w1 (zip_path_of (pack_id_of t1)) = Some p1" by (simp add: w1)
  then obtain p1 where p1: "fs w1 (zip_path_of (pack_id_of t1)) = Some p1" by blast
  have "\<exists>p2. fs w2 (zip_path_of (pack_id_of t2)) = Some p2" by (simp add: w2)
  then obtain p2 where p2: "fs w2 (zip_path_of (pack_id_of t2)) = Some p2" by blast
  have keep: "py_int t1 \<noteq> py_int t2 \<Longrightarrow> fs w2 (zip_path_of (pack_id_of t1)) = Some p1"
    using p1 by (simp add: w2 zip_path_of_eq)
  have over: "py_int t1 = py_int t2 \<Longrightarrow> fs w2 (zip_path_of (pack_id_of t1)) = Some p2"
    using p2 zip_path_of_eq [of t1 t2] by simp
  have "fst (download_evidence (er_pack_id r1) w1) = Inr p1
             \<and> fst (download_evidence (er_pack_id r2) w2) = Inr p2
             \<and> fst (download_evidence (er_pack_id r1) w2) =
                 (if py_int t1 = py_int t2 then Inr p2 else Inr p1)"
    using p1 p2 keep over by (simp add: download_evidence_def r1 r2)
  then show ?thesis using r1 r2 by (auto simp: pack_id_of_eq zip_path_of_eq)
qed

theorem evidence_packs_by_second_witness:
  "pack_id_of (6800000001 / 4) = ''evidence_1700000000''
   \<and> pack_id_of (3400000003 / 2) = ''evidence_1700000001''
   \<and> fst (download_evidence ''evidence_1700000000''
          (snd (build_evidence_pack ''2023-11-14T22:13:21.500000'' (3400000003 / 2) (ZipWritten 950)
             (snd (build_evidence_pack ''2023-11-14T22:13:20.250000'' (6800000001 / 4) (ZipWritten 900)
                (initial_world Map.empty)))))) =
       Inr (ZipPack ''2023-11-14T22:13:20.250000'' initial_state None 900)"
proof -
  let ?b1 = "build_evidence_pack ''2023-11-14T22:13:20.250000'' (6800000001 / 4) (ZipWritten 900)
                (initial_world Map.empty)"
  let ?b2 = "build_evidence_pack ''2023-11-14T22:13:21.500000'' (3400000003 / 2) (ZipWritten 950)
                (snd ?b1)"
  have a1: "?b1 = (Inr (projr (fst ?b1)), snd ?b1)" by (simp add: build_written)
  have a2: "?b2 = (Inr (projr (fst ?b2)), snd ?b2)" by (simp add: build_written)
  have s: "py_int (6800000001 / 4) \<noteq> py_int (3400000003 / 2)" by (simp add: py_int_def)
  have i: "pack_id_of (6800000001 / 4) = ''evidence_1700000000''
           \<and> pack_id_of (3400000003 / 2) = ''evidence_1700000001''"
    by (simp add: pack_id_of_def py_int_def str_int_def str_nat.simps digit_char_def)
  have d: "fst (download_evidence ''evidence_1700000000'' (snd ?b1)) =
       Inr (ZipPack ''2023-11-14T22:13:20.250000'' initial_state None 900)"
    by (simp add: build_written download_evidence_def i [THEN conjunct1, symmetric]
        initial_world_def initial_state_def truthy_name_def)
  from evidence_packs_by_second [OF a1 a2] s
  have "fst (download_evidence (pack_id_of (6800000001 / 4)) (snd ?b2)) =
        fst (download_evidence (pack_id_of (6800000001 / 4)) (snd ?b1))"
    by auto
  with i d show ?thesis by simp
qed

text \<open>
  The claim as stated fails for two calls a half second apart within second 1700000000:
  both return the identifier \<open>evidence_1700000000\<close> and the same path, and the download
  of that identifier afterwards is the second archive; the first is gone.
\<close>

theorem evidence_packs_by_second_counterexample:
  "fst (build_evidence_pack ''2023-11-14T22:13:20.250000'' (6800000001 / 4) (ZipWritten 900)
          (initial_world Map.empty)) =
     Inr \<lparr> er_ok = True, er_pack_id = ''evidence_1700000000'',
           er_zip_path = ''runtime/evidence/evidence_1700000000.zip'',
           er_size_bytes = 900, er_created_at = ''2023-11-14T22:13:20.250000'' \<rparr>
   \<and> fst (build_evidence_pack ''2023-11-14T22:13:20.750000'' (6800000003 / 4) (ZipWritten 950)
          (snd (build_evidence_pack ''2023-11-14T22:13:20.250000'' (6800000001 / 4) (ZipWritten 900)
             (initial_world Map.empty)))) =
     Inr \<lparr> er_ok = True, er_pack_id = ''evidence_1700000000'',
           er_zip_path = ''runtime/evidence/evidence_1700000000.zip'',
           er_size_bytes = 950, er_created_at = ''2023-11-14T22:13:20.750000'' \<rparr>
   \<and> fst (download_evidence ''evidence_1700000000''
          (snd (build_evidence_pack ''2023-11-14T22:13:20.750000'' (6800000003 / 4) (ZipWritten 950)
             (snd (build_evidence_pack ''2023-11-14T22:13:20.250000'' (6800000001 / 4) (ZipWritten 900)
                (initial_world Map.empty)))))) =
     Inr (ZipPack ''2023-11-14T22:13:20.750000'' initial_state None 950)"
  by (simp add: build_written download_evidence_def pack_id_of_def zip_path_of_def path_join_def
      EVIDENCE_DIR_def py_int_def str_int_def str_nat.simps digit_char_def initial_world_def
      initial_state_def truthy_name_def)

end
